theory Spec2Isabelle
  imports Main
begin

section \<open>JavaScript values\<close>

text \<open>
  A field of an entity record is a scalar (string, number, boolean), or \<open>null\<close>, or
  \<open>undefined\<close> when a key is read that the object does not have. A number is a whole
  number of magnitude below \<open>10^21\<close>, which JavaScript prints in plain decimal; \<open>NaN\<close>
  (the one scalar that is strictly unequal to itself) is not a JSON value and is left out,
  so that \<open>!==\<close> on these values is inequality.
\<close>

datatype jsval = JUndefined | JNull | JBool bool | JNum int | JStr string

type_synonym object = "string \<rightharpoonup> jsval"

definition get :: "object \<Rightarrow> string \<Rightarrow> jsval" where
  \<comment> \<open>\<open>obj[key]\<close>: a key the object does not have reads as \<open>undefined\<close>.\<close>
  "get obj key = (case obj key of None \<Rightarrow> JUndefined | Some v \<Rightarrow> v)"

definition strict_neq :: "jsval \<Rightarrow> jsval \<Rightarrow> bool" where
  \<comment> \<open>\<open>a !== b\<close> on scalars.\<close>
  [simp]: "strict_neq a b \<longleftrightarrow> a \<noteq> b"

definition digit :: "nat \<Rightarrow> char" where
  "digit d = ''0123456789'' ! d"

fun show_nat :: "nat \<Rightarrow> string" where
  "show_nat n = (if n < 10 then [digit n] else show_nat (n div 10) @ [digit (n mod 10)])"

declare show_nat.simps [simp del]

definition show_int :: "int \<Rightarrow> string" where
  "show_int i = (if i < 0 then CHR ''-'' # show_nat (nat (- i)) else show_nat (nat i))"

fun to_string :: "jsval \<Rightarrow> string" where
  \<comment> \<open>ToString, as a template literal applies it.\<close>
  "to_string JUndefined = ''undefined''"
| "to_string JNull = ''null''"
| "to_string (JBool b) = (if b then ''true'' else ''false'')"
| "to_string (JNum i) = show_int i"
| "to_string (JStr s) = s"

definition input_value :: "jsval \<Rightarrow> string" where
  \<comment> \<open>What a text input holds after \<open>element.value = v\<close>: the string form of \<open>v\<close>,
      with \<open>null\<close> as the empty string, without its line breaks.\<close>
  "input_value v =
     filter (\<lambda>c. c \<noteq> CHR 0x0A \<and> c \<noteq> CHR 0x0D) (if v = JNull then [] else to_string v)"

definition text_content :: "jsval \<Rightarrow> string" where
  \<comment> \<open>What a node holds after \<open>node.textContent = v\<close>: the string form of \<open>v\<close>, with
      \<open>null\<close> and \<open>undefined\<close> as the empty string.\<close>
  "text_content v = (if v = JNull \<or> v = JUndefined then [] else to_string v)"

datatype error = TypeError | SyntaxError | AwaitRejected


section \<open>The sheet and the page it lives in\<close>

text \<open>
  One record holds the fields of the \<open>Sheet\<close> object and what it reaches through
  \<open>this.window\<close>: the content it queries, the title node, the elements with their values,
  and the two collaborators it calls. An element is known by its identity. A listener is
  the closure that \<open>registerInput\<close> or \<open>registerBatchedInput\<close> hands to
  \<open>addEventListener\<close>; it keeps the key, and the element it was added to stands beside it
  in \<open>listeners\<close>. \<open>writes\<close> records every assignment to \<open>titleNode.textContent\<close> and to
  an element's \<open>value\<close>, with the value assigned.

  \<open>querySelector\<close> throws on a selector that is not valid CSS and returns \<open>null\<close> when
  nothing matches; what it returns need not be a form control. \<open>element.value\<close> reads as
  a string on a form control, and on any other element as \<open>undefined\<close> until a value is
  assigned. What an element holds after \<open>element.value = v\<close> is the element's own business
  (a text input keeps the string form of \<open>v\<close>, a number input empties itself on text that
  is no number, an element that is no form control keeps \<open>v\<close> as it is); \<open>valueSetter\<close>
  gives it for each element, as a function of \<open>v\<close> alone.
\<close>

type_synonym elem = nat

datatype listener = BatchedListener string | ImmediateListener string

datatype assignment = SetTitle jsval | SetValue elem jsval

record state =
  sheet_id :: jsval                             \<comment> \<open>\<open>this.id\<close>\<close>
  cachedData :: object                          \<comment> \<open>\<open>this.cachedData\<close>\<close>
  inputs :: "(string \<times> elem) list"              \<comment> \<open>\<open>this.inputs\<close>\<close>
  querySelector :: "string \<Rightarrow> error + elem option"
                                                \<comment> \<open>\<open>this.window.content.querySelector\<close>\<close>
  titleText :: string                           \<comment> \<open>\<open>this.window.titleNode.textContent\<close>\<close>
  elemValue :: "elem \<Rightarrow> jsval"                   \<comment> \<open>\<open>element.value\<close>, as read\<close>
  valueSetter :: "elem \<Rightarrow> jsval \<Rightarrow> jsval"        \<comment> \<open>\<open>element.value\<close>, as assigned\<close>
  activeElement :: "elem option"                \<comment> \<open>the element that has focus, if any\<close>
  listeners :: "(elem \<times> listener) list"         \<comment> \<open>the \<open>input\<close> listeners, as added\<close>
  console :: "string list"                      \<comment> \<open>\<open>console.error\<close>\<close>
  requests :: "(string \<times> object) list"          \<comment> \<open>the calls of \<open>ApiRequest\<close>\<close>
  pending :: "object list"                      \<comment> \<open>the Batched Update Queue\<close>
  writes :: "assignment list"

definition Sheet :: "jsval \<Rightarrow> state \<Rightarrow> state" where
  \<comment> \<open>The constructor: \<open>new Sheet(id, window)\<close>, on the page of that window.\<close>
  "Sheet ident s = s\<lparr>sheet_id := ident, cachedData := Map.empty, inputs := []\<rparr>"



definition not_found :: "string \<Rightarrow> string" where
  \<comment> \<open>The message of \<open>console.error\<close>, with its apostrophe and its double quotes.\<close>
  "not_found selector =
     ''Can'' @ [CHR 0x27] @ ''t find '' @ [CHR 0x22] @ selector @ [CHR 0x22]
       @ '' in character sheet''"




definition registerBatchedInput ::
  "string \<Rightarrow> string \<Rightarrow> state \<Rightarrow> (error + elem option) \<times> state" where
  "registerBatchedInput selector key s =
     (case querySelector s selector of
        Inl err \<Rightarrow> (Inl err, s)
      | Inr None \<Rightarrow> (Inr None, s\<lparr>console := console s @ [not_found selector]\<rparr>)
      | Inr (Some element) \<Rightarrow>
          (Inr (Some element),
           s\<lparr>listeners := listeners s @ [(element, BatchedListener key)],
             inputs := inputs s @ [(key, element)]\<rparr>))"

definition registerInput ::
  "string \<Rightarrow> string \<Rightarrow> state \<Rightarrow> (error + elem option) \<times> state" where
  "registerInput selector key s =
     (case querySelector s selector of
        Inl err \<Rightarrow> (Inl err, s)
      | Inr None \<Rightarrow> (Inr None, s\<lparr>console := console s @ [not_found selector]\<rparr>)
      | Inr (Some element) \<Rightarrow>
          (Inr (Some element),
           s\<lparr>listeners := listeners s @ [(element, ImmediateListener key)],
             inputs := inputs s @ [(key, element)]\<rparr>))"

definition set_title :: "jsval \<Rightarrow> state \<Rightarrow> state" where
  \<comment> \<open>\<open>this.window.titleNode.textContent = v\<close>\<close>
  "set_title v s = s\<lparr>titleText := text_content v, writes := writes s @ [SetTitle v]\<rparr>"

definition set_value :: "elem \<Rightarrow> jsval \<Rightarrow> state \<Rightarrow> state" where
  \<comment> \<open>\<open>element.value = v\<close>\<close>
  "set_value element v s =
     s\<lparr>elemValue := (elemValue s)(element := valueSetter s element v),
       writes := writes s @ [SetValue element v]\<rparr>"

fun update_inputs :: "object \<Rightarrow> (string \<times> elem) list \<Rightarrow> state \<Rightarrow> state" where
  \<comment> \<open>The loop of \<open>update\<close> over \<open>this.inputs\<close>.\<close>
  "update_inputs data [] s = s"
| "update_inputs data ((key, element) # rest) s =
     update_inputs data rest
       (if strict_neq (get data key) (get (cachedData s) key)
        then set_value element (get data key) s else s)"

definition update :: "object option \<Rightarrow> state \<Rightarrow> (error + unit) \<times> state" where
  \<comment> \<open>The argument \<open>None\<close> is \<open>undefined\<close> or \<open>null\<close>, on which \<open>data.name\<close> throws
      before anything is written.\<close>
  "update arg s =
     (case arg of
        None \<Rightarrow> (Inl TypeError, s)
      | Some data \<Rightarrow>
          (let s1 = (if strict_neq (get data ''name'') (get (cachedData s) ''name'')
                     then set_title (get data ''name'') s else s)
           in (Inr (), update_inputs data (inputs s1) s1)))"


section \<open>Loading a character sheet window\<close>

text \<open>
  \<open>CharacterSheetWindow.load\<close> is an \<open>async\<close> function: it runs until an \<open>await\<close>,
  and goes on when the awaited promise settles. On the one thread of the page, other
  events come in between: \<open>close()\<close> of the window, and pushes of the server. The model is
  a machine with a program counter, which says at which \<open>await\<close> the call stands and keeps
  the local \<open>characterData\<close>; an event is the settling of the awaited promise, a
  \<open>close()\<close>, or a push.

  The sheet class comes from a module imported at run time, so the constructor and the
  methods \<open>onLoad\<close>, \<open>addListeners\<close> and \<open>update\<close> are recorded as calls, in order, and are
  taken to return. Of \<open>super.load()\<close> only the settling is known; window.js is not among
  the sources.
\<close>

record response =
  status :: jsval
  character :: "object option"

datatype call = New jsval | OnLoad object | AddListeners | Update "object option"

datatype pc =
    NotStarted | AwaitSuperLoad | AwaitApiRequest
  | AwaitImport object | AwaitLoadCss object | AwaitLoadHtml object
  | AwaitSubscribe | Returned | Failed error

datatype event =
    SuperLoaded | Response response | Imported | CssLoaded | HtmlLoaded string
  | Subscribed | Rejected | Close | Push jsval "object option"

record window =
  pc :: pc
  loadId :: jsval                      \<comment> \<open>the parameter \<open>id\<close> of \<open>load\<close>\<close>
  content :: "string list"             \<comment> \<open>the children of \<open>this.content\<close>\<close>
  titleNode :: string                  \<comment> \<open>\<open>this.titleNode.textContent\<close>\<close>
  toasts :: "string list"              \<comment> \<open>the notifications shown by \<open>ErrorToast\<close>\<close>
  apiCalls :: "(string \<times> object) list" \<comment> \<open>the calls of \<open>ApiRequest\<close>\<close>
  loaded :: "string list"              \<comment> \<open>the module, style sheet and template asked for\<close>
  sheetCalls :: "call list"            \<comment> \<open>the calls on the sheet\<close>
  subscribeCalls :: "jsval list"       \<comment> \<open>the calls of \<open>this.subscribe\<close>, by id\<close>
  handlers :: "jsval list"             \<comment> \<open>the subscriptions now delivering to the sheet\<close>
  closed :: bool                       \<comment> \<open>the lifecycle state \<open>Closed\<close>\<close>

definition load :: "jsval \<Rightarrow> window \<Rightarrow> window" where
  \<comment> \<open>The call \<open>load(id)\<close>, up to \<open>await super.load()\<close>.\<close>
  "load ident w = w\<lparr>loadId := ident, pc := AwaitSuperLoad\<rparr>"

definition sheet_file :: "object \<Rightarrow> string \<Rightarrow> string" where
  \<comment> \<open>The template literal \<open>${sheetType}-sheet.\<close> with its extension.\<close>
  "sheet_file characterData ext =
     to_string (get characterData ''sheet_type'') @ ''-sheet.'' @ ext"

fun awaiting :: "pc \<Rightarrow> bool" where
  "awaiting NotStarted = False"
| "awaiting Returned = False"
| "awaiting (Failed err) = False"
| "awaiting p = True"

definition ErrorToast :: "string \<Rightarrow> window \<Rightarrow> window" where
  \<comment> \<open>Modelled from the spec: \<open>ErrorToast\<close> of notifications.js, which is not among the
      sources; it shows an error notification.\<close>
  [simp]: "ErrorToast message w = w\<lparr>toasts := toasts w @ [message]\<rparr>"

definition subscribe :: "jsval \<Rightarrow> window \<Rightarrow> window" where
  \<comment> \<open>Modelled from the spec: \<open>this.subscribe\<close> of window.js, which is not among the
      sources; from the call on, the push channel delivers the updates of the entity to
      the handler.\<close>
  [simp]: "subscribe ident w =
     w\<lparr>subscribeCalls := subscribeCalls w @ [ident], handlers := handlers w @ [ident]\<rparr>"

fun resume :: "event \<Rightarrow> window \<Rightarrow> window" where
  \<comment> \<open>The code between one \<open>await\<close> and the next. \<open>response.status != "success"\<close> is the
      loose inequality, which on scalars and this string is inequality. A promise that
      rejects, or \<open>characterData\<close> being \<open>undefined\<close>, ends the call with an exception.\<close>
  "resume SuperLoaded w =
     (case pc w of
        AwaitSuperLoad \<Rightarrow>
          w\<lparr>content := [],
            apiCalls := apiCalls w @ [(''/character/get'', [''id'' \<mapsto> loadId w])],
            pc := AwaitApiRequest\<rparr>
      | _ \<Rightarrow> w)"
| "resume (Response r) w =
     (case pc w of
        AwaitApiRequest \<Rightarrow>
          if status r \<noteq> JStr ''success''
          then (ErrorToast ''Character loading failed!'' w)\<lparr>pc := Returned\<rparr>
          else (case character r of
                  None \<Rightarrow> w\<lparr>pc := Failed TypeError\<rparr>
                | Some characterData \<Rightarrow>
                    w\<lparr>titleNode := text_content (get characterData ''name''),
                      loaded := loaded w @ [''./'' @ sheet_file characterData ''js''],
                      pc := AwaitImport characterData\<rparr>)
      | _ \<Rightarrow> w)"
| "resume Imported w =
     (case pc w of
        AwaitImport characterData \<Rightarrow>
          w\<lparr>loaded := loaded w @ [sheet_file characterData ''css''],
            pc := AwaitLoadCss characterData\<rparr>
      | _ \<Rightarrow> w)"
| "resume CssLoaded w =
     (case pc w of
        AwaitLoadCss characterData \<Rightarrow>
          w\<lparr>loaded := loaded w @ [sheet_file characterData ''html''],
            pc := AwaitLoadHtml characterData\<rparr>
      | _ \<Rightarrow> w)"
| "resume (HtmlLoaded fragment) w =
     (case pc w of
        AwaitLoadHtml characterData \<Rightarrow>
          (subscribe (loadId w)
             (w\<lparr>content := content w @ [fragment],
                sheetCalls := sheetCalls w @
                  [New (get characterData ''id''), OnLoad characterData, AddListeners,
                   Update (Some characterData)]\<rparr>))
          \<lparr>pc := AwaitSubscribe\<rparr>
      | _ \<Rightarrow> w)"
| "resume Subscribed w =
     (case pc w of AwaitSubscribe \<Rightarrow> w\<lparr>pc := Returned\<rparr> | _ \<Rightarrow> w)"
| "resume Rejected w = (if awaiting (pc w) then w\<lparr>pc := Failed AwaitRejected\<rparr> else w)"
| "resume ev w = w"

definition close :: "window \<Rightarrow> window" where
  \<comment> \<open>Modelled from the spec: \<open>close()\<close> of window.js, which is not among the sources; the
      window unsubscribes and is \<open>Closed\<close>.\<close>
  "close w = w\<lparr>handlers := [], closed := True\<rparr>"

definition push :: "jsval \<Rightarrow> object option \<Rightarrow> window \<Rightarrow> window" where
  \<comment> \<open>Modelled from the spec: the push channel of requests.js, which is not among the
      sources, hands an update of an entity to the handler of each subscription to it.
      The handler is the one \<open>load\<close> passes: \<open>sheet.update(updateData.changes)\<close>.\<close>
  "push ident changes w =
     w\<lparr>sheetCalls := sheetCalls w
          @ map (\<lambda>h. Update changes) (filter (\<lambda>h. h = ident) (handlers w))\<rparr>"

fun step :: "event \<Rightarrow> window \<Rightarrow> window" where
  "step Close w = close w"
| "step (Push ident changes) w = push ident changes w"
| "step ev w = resume ev w"

definition run :: "event list \<Rightarrow> window \<Rightarrow> window" where
  "run evs w = fold step evs w"

fun is_push :: "event \<Rightarrow> bool" where
  "is_push (Push ident changes) = True"
| "is_push ev = False"

fun is_close :: "event \<Rightarrow> bool" where
  "is_close Close = True"
| "is_close ev = False"

definition erase_close :: "window \<Rightarrow> window" where
  \<comment> \<open>The window without the two fields that \<open>close()\<close> writes.\<close>
  "erase_close w = w\<lparr>handlers := [], closed := False\<rparr>"


section \<open>Auxiliary notions for the proofs\<close>

definition changed :: "object \<Rightarrow> object \<Rightarrow> (string \<times> elem) list \<Rightarrow> (string \<times> elem) list" where
  \<comment> \<open>The bindings for which the loop of \<open>update\<close> takes the branch that writes.\<close>
  "changed data cache xs = filter (\<lambda>(key, element). get data key \<noteq> get cache key) xs"

definition assign ::
  "(elem \<Rightarrow> jsval \<Rightarrow> jsval) \<Rightarrow> object \<Rightarrow> string \<times> elem \<Rightarrow> (elem \<Rightarrow> jsval) \<Rightarrow> (elem \<Rightarrow> jsval)" where
  \<comment> \<open>One assignment of the loop, on the values of the elements alone.\<close>
  "assign setter data = (\<lambda>(key, element) f. f(element := setter element (get data key)))"



definition shows_cache :: "state \<Rightarrow> bool" where
  \<comment> \<open>Every bound element displays the cache entry of its key.\<close>
  "shows_cache s =
     list_all (\<lambda>(key, element).
                 elemValue s element = valueSetter s element (get (cachedData s) key))
       (inputs s)"


section \<open>Example states\<close>

definition blank_window :: window where
  "blank_window = \<lparr>pc = NotStarted, loadId = JUndefined, content = [], titleNode = [],
     toasts = [], apiCalls = [], loaded = [], sheetCalls = [], subscribeCalls = [],
     handlers = [], closed = False\<rparr>"

definition zog :: object where
  "zog = [''id'' \<mapsto> JStr ''c1'', ''name'' \<mapsto> JStr ''Zog'',
          ''sheet_type'' \<mapsto> JStr ''dnd'', ''hp'' \<mapsto> JNum 10]"

definition fetched :: response where
  "fetched = \<lparr>status = JStr ''success'', character = Some zog\<rparr>"

definition refused :: response where
  "refused = \<lparr>status = JStr ''error'', character = None\<rparr>"

definition page :: state where
  \<comment> \<open>A window whose content has two text inputs, found by \<open>.hp\<close> and \<open>.mp\<close>, and an
      element that is no form control, found by \<open>.portrait\<close>; the empty selector is not
      valid CSS.\<close>
  "page = \<lparr>sheet_id = JUndefined, cachedData = Map.empty, inputs = [],
     querySelector = (\<lambda>selector. if selector = [] then Inl SyntaxError
                        else if selector = ''.hp'' then Inr (Some 0)
                        else if selector = ''.mp'' then Inr (Some 1)
                        else if selector = ''.portrait'' then Inr (Some 2)
                        else Inr None),
     titleText = ''Character'',
     elemValue = (\<lambda>element. if element = 2 then JUndefined else JStr []),
     valueSetter = (\<lambda>element v. if element = 2 then v else JStr (input_value v)),
     activeElement = None,
     listeners = [], console = [], requests = [], pending = [], writes = []\<rparr>"

definition hp_sheet :: state where
  "hp_sheet = snd (registerBatchedInput ''.hp'' ''hp'' (Sheet (JStr ''c1'') page))"

definition typing :: state where
  \<comment> \<open>The user has put the cursor into the input and typed \<open>1\<close>.\<close>
  "typing = hp_sheet\<lparr>elemValue := (elemValue hp_sheet)(0 := JStr ''1''),
                     activeElement := Some 0\<rparr>"

definition tracked :: state where
  \<comment> \<open>A sheet whose cache holds the hit points that its input displays.\<close>
  "tracked = hp_sheet\<lparr>cachedData := [''hp'' \<mapsto> JNum 10],
                      elemValue := (elemValue hp_sheet)(0 := JStr ''10'')\<rparr>"




section \<open>What \<open>update\<close> does to the page\<close>

lemma changed_Nil [simp]: "changed d c [] = []"
  by (simp add: changed_def)

lemma changed_Cons [simp]:
  "changed d c ((k, e) # xs) =
     (if get d k \<noteq> get c k then (k, e) # changed d c xs else changed d c xs)"
  by (simp add: changed_def)

lemma update_inputs_eq:
  "update_inputs data xs s =
     s\<lparr>elemValue := fold (assign (valueSetter s) data) (changed data (cachedData s) xs)
                      (elemValue s),
       writes := writes s @ map (\<lambda>(key, element). SetValue element (get data key))
                              (changed data (cachedData s) xs)\<rparr>"
  by (induction xs arbitrary: s) (auto simp: set_value_def assign_def)

lemma update_eq:
  "update (Some data) s =
    (Inr (),
     s\<lparr>titleText := (if get data ''name'' \<noteq> get (cachedData s) ''name''
                      then text_content (get data ''name'') else titleText s),
       elemValue := fold (assign (valueSetter s) data)
                      (changed data (cachedData s) (inputs s)) (elemValue s),
       writes := writes s
          @ (if get data ''name'' \<noteq> get (cachedData s) ''name''
             then [SetTitle (get data ''name'')] else [])
          @ map (\<lambda>(key, element). SetValue element (get data key))
              (changed data (cachedData s) (inputs s))\<rparr>)"
  by (simp add: update_def update_inputs_eq set_title_def Let_def)

lemma update_None: "update None s = (Inl TypeError, s)"
  by (simp add: update_def)

lemma fold_assign_at:
  "fold (assign f data) W g e =
     (let ks = map fst (filter (\<lambda>(k, e'). e' = e) W)
      in if ks = [] then g e else f e (get data (last ks)))"
  by (induction W rule: rev_induct) (auto simp: assign_def Let_def)

lemma fold_assign_twice:
  "fold (assign f data) W (fold (assign f data) W g) = fold (assign f data) W g"
  by (rule ext) (simp add: fold_assign_at Let_def)

lemma filter_changed:
  "filter P (changed d c xs) =
     filter (\<lambda>x. P x \<and> (case x of (k, e) \<Rightarrow> get d k \<noteq> get c k)) xs"
  by (induction xs) (auto simp: changed_def)

lemma update_elemValue:
  "elemValue (snd (update (Some data) s)) element =
   (let keys = map fst (filter (\<lambda>(key, e). e = element \<and> get data key \<noteq> get (cachedData s) key)
                          (inputs s))
    in if keys = [] then elemValue s element
       else valueSetter s element (get data (last keys)))"
  by (simp add: update_eq fold_assign_at filter_changed Let_def case_prod_unfold conj_commute)

lemma update_inputs_cong:
  "\<forall>(k, e) \<in> set xs. get d k = get d' k \<Longrightarrow> update_inputs d xs s = update_inputs d' xs s"
  by (induction xs arbitrary: s) auto

lemma filter_bound_once:
  "distinct (map snd xs) \<Longrightarrow> (k, e) \<in> set xs \<Longrightarrow>
     filter (\<lambda>(k', e'). e' = e \<and> P k') xs = (if P k then [(k, e)] else [])"
proof (induction xs)
  case Nil
  then show ?case by simp
next
  case (Cons x xs)
  obtain k' e' where x: "x = (k', e')" by (cases x)
  show ?case
  proof (cases "(k, e) \<in> set xs")
    case True
    with Cons.prems x have "e' \<noteq> e" by (auto simp: image_iff)
    with Cons.IH True Cons.prems x show ?thesis by simp
  next
    case False
    with Cons.prems x have eq: "k' = k" "e' = e" by auto
    from Cons.prems x eq have "\<forall>y \<in> set xs. snd y \<noteq> e" by (auto simp: image_iff)
    then have "filter (\<lambda>(k', e'). e' = e \<and> P k') xs = []"
      by (auto simp: filter_empty_conv)
    with x eq show ?thesis by simp
  qed
qed

lemma hp_sheet_eq:
  "hp_sheet = page\<lparr>sheet_id := JStr ''c1'', listeners := [(0, BatchedListener ''hp'')],
                   inputs := [(''hp'', 0)]\<rparr>"
  by (simp add: hp_sheet_def registerBatchedInput_def Sheet_def page_def)

lemma show_int_10: "show_int 10 = ''10''"
  by (simp add: show_int_def show_nat.simps digit_def)

lemma show_int_12: "show_int 12 = ''12''"
  by (simp add: show_int_def show_nat.simps digit_def)

text \<open>
  The scenario of the spec: the cache holds \<open>{hp: 10}\<close>, the payload is
  \<open>{hp: 10, name: "Zog"}\<close>; the title is written and the input is not.
\<close>

lemma scenario_name_changed_hp_not:
  "writes (snd (update (Some [''hp'' \<mapsto> JNum 10, ''name'' \<mapsto> JStr ''Zog'']) tracked))
     = [SetTitle (JStr ''Zog'')]
   \<and> titleText (snd (update (Some [''hp'' \<mapsto> JNum 10, ''name'' \<mapsto> JStr ''Zog'']) tracked))
     = ''Zog''
   \<and> elemValue (snd (update (Some [''hp'' \<mapsto> JNum 10, ''name'' \<mapsto> JStr ''Zog'']) tracked)) 0
     = JStr ''10''"
  by (simp add: tracked_def hp_sheet_eq page_def update_def get_def set_title_def
        text_content_def)


section \<open>Input events\<close>








section \<open>Runs of \<open>load\<close>\<close>

lemma run_Nil [simp]: "run [] w = w"
  by (simp add: run_def)

lemma run_Cons [simp]: "run (ev # evs) w = run evs (step ev w)"
  by (simp add: run_def)

lemma erase_close_eq:
  "erase_close w = erase_close w' \<longleftrightarrow>
     pc w = pc w' \<and> loadId w = loadId w' \<and> content w = content w' \<and>
     titleNode w = titleNode w' \<and> toasts w = toasts w' \<and> apiCalls w = apiCalls w' \<and>
     loaded w = loaded w' \<and> sheetCalls w = sheetCalls w' \<and>
     subscribeCalls w = subscribeCalls w'"
  by (cases w; cases w') (simp add: erase_close_def)

lemma erase_resume:
  "\<not> is_push ev \<Longrightarrow> \<not> is_close ev \<Longrightarrow> erase_close w = erase_close w' \<Longrightarrow>
     erase_close (step ev w) = erase_close (step ev w')"
  by (cases ev; cases "pc w"; cases "pc w'")
     (simp_all add: erase_close_eq split: option.split)

lemma erase_run:
  "\<forall>ev\<in>set evs. \<not> is_push ev \<Longrightarrow> erase_close w = erase_close w' \<Longrightarrow>
     erase_close (run evs w) = erase_close (run (filter (\<lambda>ev. \<not> is_close ev) evs) w')"
proof (induction evs arbitrary: w w')
  case Nil
  then show ?case by simp
next
  case (Cons ev evs)
  show ?case
  proof (cases "is_close ev")
    case True
    then have "ev = Close" by (cases ev) simp_all
    then have "erase_close (step ev w) = erase_close w'"
      using Cons.prems(2) by (simp add: erase_close_eq close_def)
    with Cons.IH [of "step ev w" w'] Cons.prems(1) True show ?thesis by simp
  next
    case False
    with Cons.prems have "erase_close (step ev w) = erase_close (step ev w')"
      by (intro erase_resume) simp_all
    with Cons.IH [of "step ev w" "step ev w'"] Cons.prems(1) False show ?thesis by simp
  qed
qed

lemma returned_stays:
  "pc w = Returned \<Longrightarrow> handlers w = [] \<Longrightarrow>
   pc (step ev w) = Returned \<and> handlers (step ev w) = [] \<and> toasts (step ev w) = toasts w \<and>
   sheetCalls (step ev w) = sheetCalls w \<and> subscribeCalls (step ev w) = subscribeCalls w"
  by (cases ev) (auto simp: close_def push_def split: pc.splits)

lemma returned_run:
  "pc w = Returned \<Longrightarrow> handlers w = [] \<Longrightarrow>
   pc (run evs w) = Returned \<and> toasts (run evs w) = toasts w \<and>
   sheetCalls (run evs w) = sheetCalls w \<and> subscribeCalls (run evs w) = subscribeCalls w"
proof (induction evs arbitrary: w)
  case Nil
  then show ?case by simp
next
  case (Cons ev evs)
  from returned_stays [OF Cons.prems] Cons.IH [of "step ev w"]
  show ?case by simp
qed


section \<open>The claims about \<open>Sheet.update\<close>\<close>

text \<open>
  C1, as the code has it. \<open>update\<close> does not look at the focus. Whichever element has
  focus, an element keeps what it displays exactly when, for every key it is bound under,
  the payload's value is strictly equal to the cache entry; otherwise it takes the
  payload's value for the last such key in the order of binding, focused or not.
\<close>

theorem update_overwrites_focused:
  "elemValue (snd (update (Some data) (s\<lparr>activeElement := a\<rparr>))) element =
   (let keys = map fst (filter (\<lambda>(key, e). e = element \<and> get data key \<noteq> get (cachedData s) key)
                          (inputs s))
    in if keys = [] then elemValue s element
       else valueSetter s element (get data (last keys)))"
  by (simp add: update_elemValue)

text \<open>
  C1 fails as stated: the input bound to \<open>hp\<close> has focus and displays \<open>1\<close>, which the user
  has typed; the payload \<open>{hp: "20"}\<close> arrives, and the input displays \<open>20\<close>.
\<close>

theorem focused_input_overwritten:
  "activeElement typing = Some 0 \<and> (''hp'', 0) \<in> set (inputs typing) \<and>
   elemValue typing 0 = JStr ''1'' \<and>
   elemValue (snd (update (Some [''hp'' \<mapsto> JStr ''20'']) typing)) 0 = JStr ''20''"
  by (simp add: typing_def hp_sheet_eq page_def update_def get_def set_value_def
        input_value_def)

text \<open>
  C2, as the code has it. \<open>update\<close> never writes \<open>cachedData\<close>: after the call the cache
  is what it was before. What it brings up to date is the page: if no element is bound
  twice and every bound element displayed the cache entry of its key before the call, then
  after the call every bound element displays the payload's value for its key (a key that
  the payload lacks reads as \<open>undefined\<close>).
\<close>

theorem update_keeps_cache:
  "cachedData (snd (update arg s)) = cachedData s \<and>
   (distinct (map snd (inputs s)) \<longrightarrow> shows_cache s \<longrightarrow>
      (\<forall>(key, element) \<in> set (inputs s).
          elemValue (snd (update (Some data) s)) element
            = valueSetter s element (get data key)))"
proof (intro conjI impI)
  show "cachedData (snd (update arg s)) = cachedData s"
    by (cases arg) (simp_all add: update_None update_eq)
next
  assume d: "distinct (map snd (inputs s))" and c: "shows_cache s"
  show "\<forall>(key, element) \<in> set (inputs s).
          elemValue (snd (update (Some data) s)) element
            = valueSetter s element (get data key)"
  proof (clarify)
    fix key element assume m: "(key, element) \<in> set (inputs s)"
    from c m have old: "elemValue s element = valueSetter s element (get (cachedData s) key)"
      by (auto simp: shows_cache_def list_all_iff)
    have f: "filter (\<lambda>(k, e). e = element \<and> get data k \<noteq> get (cachedData s) k) (inputs s)
         = (if get data key \<noteq> get (cachedData s) key then [(key, element)] else [])"
      using d m by (rule filter_bound_once)
    show "elemValue (snd (update (Some data) s)) element
            = valueSetter s element (get data key)"
      unfolding update_elemValue f using old by simp
  qed
qed

theorem update_keeps_cache_witness:
  "distinct (map snd (inputs tracked)) \<and> shows_cache tracked \<and>
   cachedData (snd (update (Some [''hp'' \<mapsto> JNum 12]) tracked)) = cachedData tracked \<and>
   elemValue (snd (update (Some [''hp'' \<mapsto> JNum 12]) tracked)) 0 = JStr ''12''"
proof -
  have i: "inputs tracked = [(''hp'', 0)]"
    by (simp add: tracked_def hp_sheet_eq page_def)
  have v: "valueSetter tracked 0 = (\<lambda>v. JStr (input_value v))"
    by (simp add: tracked_def hp_sheet_eq page_def)
  have d: "distinct (map snd (inputs tracked))"
    by (simp add: i)
  have c: "shows_cache tracked"
    by (simp add: shows_cache_def i v)
       (simp add: tracked_def get_def input_value_def show_int_10)
  from update_keeps_cache [of "Some [''hp'' \<mapsto> JNum 12]" tracked "[''hp'' \<mapsto> JNum 12]"] d c
  show ?thesis by (simp add: i v get_def input_value_def show_int_12)
qed

text \<open>
  C2 fails as stated: on a new sheet with one input bound to \<open>hp\<close>, after
  \<open>update({hp: "10"})\<close> the input displays \<open>10\<close> and \<open>cachedData.hp\<close> is still
  \<open>undefined\<close>.
\<close>

theorem cache_not_updated:
  "(''hp'', 0) \<in> set (inputs (snd (update (Some [''hp'' \<mapsto> JStr ''10'']) hp_sheet))) \<and>
   elemValue (snd (update (Some [''hp'' \<mapsto> JStr ''10'']) hp_sheet)) 0 = JStr ''10'' \<and>
   get (cachedData (snd (update (Some [''hp'' \<mapsto> JStr ''10'']) hp_sheet))) ''hp'' = JUndefined"
  by (simp add: hp_sheet_eq page_def update_def get_def set_value_def input_value_def)

text \<open>
  C3, as the code has it. Since the cache is not written, the second application of a
  payload finds the same differences as the first: it repeats the assignments of the
  first, and leaves the title, the values of the elements and the cache as the first left
  them.
\<close>

theorem update_repeats_writes:
  "snd (update arg (snd (update arg s))) =
    (snd (update arg s))\<lparr>writes := writes (snd (update arg s))
        @ drop (length (writes s)) (writes (snd (update arg s)))\<rparr>"
  by (cases arg) (simp_all add: update_None update_eq fold_assign_twice)

text \<open>
  C3 fails as stated: the second \<open>update({name: "Zog", hp: 10})\<close> on a new sheet
  assigns the title and the input again.
\<close>

theorem second_update_writes_again:
  "writes hp_sheet = [] \<and>
   writes (snd (update (Some [''name'' \<mapsto> JStr ''Zog'', ''hp'' \<mapsto> JNum 10]) hp_sheet)) =
     [SetTitle (JStr ''Zog''), SetValue 0 (JNum 10)] \<and>
   writes (snd (update (Some [''name'' \<mapsto> JStr ''Zog'', ''hp'' \<mapsto> JNum 10])
      (snd (update (Some [''name'' \<mapsto> JStr ''Zog'', ''hp'' \<mapsto> JNum 10]) hp_sheet)))) =
     [SetTitle (JStr ''Zog''), SetValue 0 (JNum 10),
      SetTitle (JStr ''Zog''), SetValue 0 (JNum 10)]"
  by (simp add: hp_sheet_eq page_def update_def get_def set_title_def set_value_def)

text \<open>
  C4, as the code has it. \<open>update\<close> goes through the bindings, not through the keys of the
  payload. It assigns the title when \<open>data.name !== cachedData.name\<close>, and then, in the
  order of binding, each element whose key has \<open>data[key] !== cachedData[key]\<close>, where a
  key that the payload or the cache lacks reads as \<open>undefined\<close>; nothing else is assigned.
  So a key of the payload that is not bound writes nothing, and a bound key that the
  payload lacks is written (with \<open>undefined\<close>) when the cache has a value for it.
\<close>

theorem update_writes_changed_bindings:
  "writes (snd (update (Some data) s)) =
     writes s
     @ (if get data ''name'' \<noteq> get (cachedData s) ''name''
        then [SetTitle (get data ''name'')] else [])
     @ map (\<lambda>(key, element). SetValue element (get data key))
         (filter (\<lambda>(key, element). get data key \<noteq> get (cachedData s) key) (inputs s))"
  by (simp add: update_eq changed_def)

text \<open>
  C4 fails as stated: the cache holds \<open>{hp: 10}\<close> and the input bound to \<open>hp\<close> displays
  \<open>10\<close>; the payload \<open>{name: "Zog"}\<close> has no key \<open>hp\<close>, and yet the input is assigned
  \<open>undefined\<close>.
\<close>

theorem absent_key_written:
  "[''name'' \<mapsto> JStr ''Zog''] ''hp'' = None \<and> inputs tracked = [(''hp'', 0)] \<and>
   get (cachedData tracked) ''hp'' = JNum 10 \<and> elemValue tracked 0 = JStr ''10'' \<and>
   writes (snd (update (Some [''name'' \<mapsto> JStr ''Zog'']) tracked)) =
     [SetTitle (JStr ''Zog''), SetValue 0 JUndefined] \<and>
   elemValue (snd (update (Some [''name'' \<mapsto> JStr ''Zog'']) tracked)) 0 = JStr ''undefined''"
  by (simp add: tracked_def hp_sheet_eq page_def update_def get_def set_title_def
        set_value_def input_value_def)

text \<open>
  C5, as the code has it. \<open>update\<close> does not look for the entity id and logs nothing. A
  payload object is applied whether it has an id or not: the title is assigned when
  \<open>data.name !== cachedData.name\<close>, then each bound element whose key has
  \<open>data[key] !== cachedData[key]\<close>, and an element ends with the value assigned to it
  last, or with the value it had. When no input is bound under the key \<open>id\<close>, the state
  after the call is the same whatever the payload has under \<open>id\<close>.
\<close>

theorem update_applies_any_object:
  "console (snd (update (Some data) s)) = console s
   \<and> titleText (snd (update (Some data) s)) =
       (if get data ''name'' \<noteq> get (cachedData s) ''name''
        then text_content (get data ''name'') else titleText s)
   \<and> writes (snd (update (Some data) s)) =
       writes s
       @ (if get data ''name'' \<noteq> get (cachedData s) ''name''
          then [SetTitle (get data ''name'')] else [])
       @ map (\<lambda>(key, element). SetValue element (get data key))
           (filter (\<lambda>(key, element). get data key \<noteq> get (cachedData s) key) (inputs s))
   \<and> elemValue (snd (update (Some data) s)) element =
       (let keys = map fst (filter (\<lambda>(key, e). e = element
                                      \<and> get data key \<noteq> get (cachedData s) key) (inputs s))
        in if keys = [] then elemValue s element
           else valueSetter s element (get data (last keys)))
   \<and> (''id'' \<notin> fst ` set (inputs s) \<longrightarrow>
        snd (update (Some (data(''id'' := x))) s) = snd (update (Some data) s))"
proof (intro conjI impI)
  show "console (snd (update (Some data) s)) = console s"
    by (simp add: update_eq)
next
  show "titleText (snd (update (Some data) s)) =
       (if get data ''name'' \<noteq> get (cachedData s) ''name''
        then text_content (get data ''name'') else titleText s)"
    by (simp add: update_eq)
next
  show "writes (snd (update (Some data) s)) =
       writes s
       @ (if get data ''name'' \<noteq> get (cachedData s) ''name''
          then [SetTitle (get data ''name'')] else [])
       @ map (\<lambda>(key, element). SetValue element (get data key))
           (filter (\<lambda>(key, element). get data key \<noteq> get (cachedData s) key) (inputs s))"
    by (simp add: update_eq changed_def)
next
  show "elemValue (snd (update (Some data) s)) element =
       (let keys = map fst (filter (\<lambda>(key, e). e = element
                                      \<and> get data key \<noteq> get (cachedData s) key) (inputs s))
        in if keys = [] then elemValue s element
           else valueSetter s element (get data (last keys)))"
    by (rule update_elemValue)
next
  assume n: "''id'' \<notin> fst ` set (inputs s)"
  have g: "get (data(''id'' := x)) k = get data k" if "k \<noteq> ''id''" for k
    using that by (simp add: get_def)
  have "\<forall>(k, e) \<in> set (inputs s). get (data(''id'' := x)) k = get data k"
  proof (clarify)
    fix k e assume "(k, e) \<in> set (inputs s)"
    then have "k \<in> fst ` set (inputs s)" by force
    with n have "k \<noteq> ''id''" by blast
    then show "get (data(''id'' := x)) k = get data k" by (rule g)
  qed
  then have u: "update_inputs (data(''id'' := x)) (inputs s) t = update_inputs data (inputs s) t"
    for t by (rule update_inputs_cong)
  have nm: "get (data(''id'' := x)) ''name'' = get data ''name''"
    by (rule g) simp
  show "snd (update (Some (data(''id'' := x))) s) = snd (update (Some data) s)"
    unfolding update_def by (simp add: Let_def nm u set_title_def)
qed

theorem update_applies_any_object_witness:
  "''id'' \<notin> fst ` set (inputs hp_sheet)
   \<and> [''hp'' \<mapsto> JStr ''7'', ''name'' \<mapsto> JStr ''Zog''] ''id'' = None
   \<and> console (snd (update (Some [''hp'' \<mapsto> JStr ''7'', ''name'' \<mapsto> JStr ''Zog'']) hp_sheet)) = []
   \<and> titleText (snd (update (Some [''hp'' \<mapsto> JStr ''7'', ''name'' \<mapsto> JStr ''Zog'']) hp_sheet))
       = ''Zog''
   \<and> writes (snd (update (Some [''hp'' \<mapsto> JStr ''7'', ''name'' \<mapsto> JStr ''Zog'']) hp_sheet))
       = [SetTitle (JStr ''Zog''), SetValue 0 (JStr ''7'')]
   \<and> elemValue (snd (update (Some [''hp'' \<mapsto> JStr ''7'', ''name'' \<mapsto> JStr ''Zog'']) hp_sheet)) 0
       = JStr ''7''
   \<and> snd (update (Some [''hp'' \<mapsto> JStr ''7'', ''name'' \<mapsto> JStr ''Zog'', ''id'' \<mapsto> JStr ''c2''])
           hp_sheet)
       = snd (update (Some [''hp'' \<mapsto> JStr ''7'', ''name'' \<mapsto> JStr ''Zog'']) hp_sheet)"
proof -
  have n: "''id'' \<notin> fst ` set (inputs hp_sheet)"
    by (simp add: hp_sheet_eq page_def)
  have v: "inputs hp_sheet = [(''hp'', 0)]" "cachedData hp_sheet = Map.empty"
      "console hp_sheet = []" "writes hp_sheet = []"
      "valueSetter hp_sheet 0 = (\<lambda>v. JStr (input_value v))"
    by (simp_all add: hp_sheet_eq page_def)
  from update_applies_any_object
         [of "[''hp'' \<mapsto> JStr ''7'', ''name'' \<mapsto> JStr ''Zog'']" hp_sheet 0 "Some (JStr ''c2'')"] n
  show ?thesis
    by (simp add: v get_def text_content_def input_value_def)
qed

text \<open>
  C5 fails as stated: the payload \<open>{name: "Zog"}\<close> has no id; it is not dropped, for the
  title becomes \<open>Zog\<close>, and nothing is logged.
\<close>

theorem payload_without_id_applied:
  "[''name'' \<mapsto> JStr ''Zog''] ''id'' = None \<and> titleText hp_sheet = ''Character'' \<and>
   titleText (snd (update (Some [''name'' \<mapsto> JStr ''Zog'']) hp_sheet)) = ''Zog'' \<and>
   console (snd (update (Some [''name'' \<mapsto> JStr ''Zog'']) hp_sheet)) = console hp_sheet"
  by (simp add: hp_sheet_eq page_def update_def get_def set_title_def text_content_def)

text \<open>
  C10. For every argument and every state of the sheet, \<open>update\<close> issues no request, puts
  nothing into the Batched Update Queue and adds no listener. Registering an input sends
  nothing either: a payload leaves only when a listener runs on an \<open>input\<close> event.
\<close>

theorem update_sends_nothing:
  "requests (snd (update arg s)) = requests s
   \<and> pending (snd (update arg s)) = pending s
   \<and> listeners (snd (update arg s)) = listeners s
   \<and> requests (snd (registerInput selector key s)) = requests s
   \<and> pending (snd (registerInput selector key s)) = pending s
   \<and> requests (snd (registerBatchedInput selector key s)) = requests s
   \<and> pending (snd (registerBatchedInput selector key s)) = pending s"
proof -
  have "requests (snd (update arg s)) = requests s"
       "pending (snd (update arg s)) = pending s"
       "listeners (snd (update arg s)) = listeners s"
    by (cases arg; simp add: update_None update_eq)+
  moreover have "requests (snd (registerInput selector key s)) = requests s"
       "pending (snd (registerInput selector key s)) = pending s"
    by (simp_all add: registerInput_def split: sum.split option.split)
  moreover have "requests (snd (registerBatchedInput selector key s)) = requests s"
       "pending (snd (registerBatchedInput selector key s)) = pending s"
    by (simp_all add: registerBatchedInput_def split: sum.split option.split)
  ultimately show ?thesis by simp
qed


section \<open>The claims about binding an input\<close>

text \<open>
  C8. When the selector resolves to no element, \<open>registerInput\<close> and
  \<open>registerBatchedInput\<close> return \<open>null\<close> without an exception, and the state afterwards is
  the state before with one more line on the console: no listener is added and no binding
  is added. A binding made next, with either function, returns the element and leaves the
  bindings and listeners that it would without the failed call.
\<close>

theorem missing_selector_skipped:
  assumes "querySelector s selector = Inr None"
  shows "registerInput selector key s =
           (Inr None, s\<lparr>console := console s @ [not_found selector]\<rparr>)
       \<and> registerBatchedInput selector key s =
           (Inr None, s\<lparr>console := console s @ [not_found selector]\<rparr>)
       \<and> (let s' = s\<lparr>console := console s @ [not_found selector]\<rparr>
          in fst (registerInput selector' key' s') = fst (registerInput selector' key' s)
           \<and> inputs (snd (registerInput selector' key' s'))
               = inputs (snd (registerInput selector' key' s))
           \<and> listeners (snd (registerInput selector' key' s'))
               = listeners (snd (registerInput selector' key' s))
           \<and> fst (registerBatchedInput selector' key' s')
               = fst (registerBatchedInput selector' key' s)
           \<and> inputs (snd (registerBatchedInput selector' key' s'))
               = inputs (snd (registerBatchedInput selector' key' s))
           \<and> listeners (snd (registerBatchedInput selector' key' s'))
               = listeners (snd (registerBatchedInput selector' key' s)))"
proof -
  have "registerInput selector key s =
           (Inr None, s\<lparr>console := console s @ [not_found selector]\<rparr>)"
       "registerBatchedInput selector key s =
           (Inr None, s\<lparr>console := console s @ [not_found selector]\<rparr>)"
    using assms by (simp_all add: registerInput_def registerBatchedInput_def)
  moreover have "fst (registerInput selector' key' (s\<lparr>console := c\<rparr>))
                   = fst (registerInput selector' key' s)"
       "inputs (snd (registerInput selector' key' (s\<lparr>console := c\<rparr>)))
                   = inputs (snd (registerInput selector' key' s))"
       "listeners (snd (registerInput selector' key' (s\<lparr>console := c\<rparr>)))
                   = listeners (snd (registerInput selector' key' s))" for c
    by (simp_all add: registerInput_def split: sum.split option.split)
  moreover have "fst (registerBatchedInput selector' key' (s\<lparr>console := c\<rparr>))
                   = fst (registerBatchedInput selector' key' s)"
       "inputs (snd (registerBatchedInput selector' key' (s\<lparr>console := c\<rparr>)))
                   = inputs (snd (registerBatchedInput selector' key' s))"
       "listeners (snd (registerBatchedInput selector' key' (s\<lparr>console := c\<rparr>)))
                   = listeners (snd (registerBatchedInput selector' key' s))" for c
    by (simp_all add: registerBatchedInput_def split: sum.split option.split)
  ultimately show ?thesis by (simp add: Let_def)
qed

theorem missing_selector_skipped_witness:
  "querySelector page ''.missing-field'' = Inr None
   \<and> registerInput ''.missing-field'' ''hp'' page =
        (Inr None, page\<lparr>console := console page @ [not_found ''.missing-field'']\<rparr>)
   \<and> registerBatchedInput ''.missing-field'' ''hp'' page =
        (Inr None, page\<lparr>console := console page @ [not_found ''.missing-field'']\<rparr>)
   \<and> fst (registerInput ''.hp'' ''hp''
             (page\<lparr>console := console page @ [not_found ''.missing-field'']\<rparr>)) = Inr (Some 0)
   \<and> inputs (snd (registerInput ''.hp'' ''hp''
             (page\<lparr>console := console page @ [not_found ''.missing-field'']\<rparr>)))
        = [(''hp'', 0)]"
proof -
  have q: "querySelector page ''.missing-field'' = Inr None"
    by (simp add: page_def)
  have r: "registerInput ''.hp'' ''hp'' page =
             (Inr (Some 0), page\<lparr>listeners := [(0, ImmediateListener ''hp'')],
                                 inputs := [(''hp'', 0)]\<rparr>)"
    by (simp add: registerInput_def page_def)
  from missing_selector_skipped [OF q, of "''hp''" "''.hp''" "''hp''"] q
  show ?thesis by (simp add: Let_def r)
qed





section \<open>The claims about \<open>CharacterSheetWindow.load\<close>\<close>

text \<open>
  C6, as the code has it. \<open>load\<close> never reads the lifecycle state of its window. For
  every run of settlings and \<open>close()\<close> calls, in any order, the call of \<open>load\<close> does what
  it does in the run without the \<open>close()\<close> calls: the same title, content, notifications,
  calls on the sheet (\<open>update\<close> among them) and calls of \<open>subscribe\<close>. The two runs end in
  windows that differ at most in what \<open>close()\<close> itself writes.
\<close>

theorem load_ignores_close:
  assumes "\<forall>ev \<in> set evs. \<not> is_push ev"
  shows "erase_close (run evs w) = erase_close (run (filter (\<lambda>ev. \<not> is_close ev) evs) w)"
  using assms by (rule erase_run) simp

theorem load_ignores_close_witness:
  "list_all (\<lambda>ev. \<not> is_push ev)
      [SuperLoaded, Close, Response fetched, Imported, CssLoaded, HtmlLoaded ''<div>'',
       Subscribed]
   \<and> erase_close (run [SuperLoaded, Close, Response fetched, Imported, CssLoaded,
                        HtmlLoaded ''<div>'', Subscribed] (load (JStr ''c1'') blank_window))
     = erase_close (run [SuperLoaded, Response fetched, Imported, CssLoaded,
                        HtmlLoaded ''<div>'', Subscribed] (load (JStr ''c1'') blank_window))"
proof -
  have n: "\<forall>ev \<in> set [SuperLoaded, Close, Response fetched, Imported, CssLoaded,
                       HtmlLoaded ''<div>'', Subscribed]. \<not> is_push ev"
    by simp
  from load_ignores_close [OF n, of "load (JStr ''c1'') blank_window"] n
  show ?thesis
    by (simp add: load_def blank_window_def close_def erase_close_def fetched_def zog_def)
qed

text \<open>
  C6 fails as stated: the window is closed while the fetch is suspended, before anything
  is bound or subscribed. When the fetch succeeds, \<open>load\<close> sets the title, makes the
  sheet, calls \<open>update\<close> on it and subscribes; a later push runs \<open>update\<close> once more.
\<close>

theorem closed_sheet_reconciled:
  "closed (run [SuperLoaded, Close] (load (JStr ''c1'') blank_window))
   \<and> pc (run [SuperLoaded, Close] (load (JStr ''c1'') blank_window)) = AwaitApiRequest
   \<and> sheetCalls (run [SuperLoaded, Close] (load (JStr ''c1'') blank_window)) = []
   \<and> sheetCalls (run [SuperLoaded, Close, Response fetched, Imported, CssLoaded,
         HtmlLoaded ''<div>'', Subscribed, Push (JStr ''c1'') (Some [''hp'' \<mapsto> JNum 9])]
         (load (JStr ''c1'') blank_window))
       = [New (JStr ''c1''), OnLoad zog, AddListeners, Update (Some zog),
          Update (Some [''hp'' \<mapsto> JNum 9])]
   \<and> subscribeCalls (run [SuperLoaded, Close, Response fetched, Imported, CssLoaded,
         HtmlLoaded ''<div>'', Subscribed, Push (JStr ''c1'') (Some [''hp'' \<mapsto> JNum 9])]
         (load (JStr ''c1'') blank_window))
       = [JStr ''c1'']
   \<and> titleNode (run [SuperLoaded, Close, Response fetched, Imported, CssLoaded,
         HtmlLoaded ''<div>'', Subscribed, Push (JStr ''c1'') (Some [''hp'' \<mapsto> JNum 9])]
         (load (JStr ''c1'') blank_window))
       = ''Zog''"
  by (simp add: load_def blank_window_def close_def push_def fetched_def zog_def get_def
        text_content_def)

text \<open>
  C7. Let the call of \<open>load\<close> stand at the fetch, with no subscription made, and let the
  response have a status other than \<open>"success"\<close>. Then, whatever events follow, the
  window has shown exactly one more notification, \<open>Character loading failed!\<close>; no sheet
  has been made and none of its methods called, so nothing is bound; there has been no
  call of \<open>subscribe\<close>; and the call of \<open>load\<close> has returned.
\<close>

theorem failed_fetch_stops_load:
  assumes "pc w = AwaitApiRequest" and "handlers w = []" and "status r \<noteq> JStr ''success''"
  shows "toasts (run evs (resume (Response r) w)) = toasts w @ [''Character loading failed!'']
       \<and> sheetCalls (run evs (resume (Response r) w)) = sheetCalls w
       \<and> subscribeCalls (run evs (resume (Response r) w)) = subscribeCalls w
       \<and> pc (run evs (resume (Response r) w)) = Returned"
  using assms returned_run [of "resume (Response r) w" evs] by simp

theorem failed_fetch_stops_load_witness:
  "pc (run [SuperLoaded] (load (JStr ''c1'') blank_window)) = AwaitApiRequest
   \<and> handlers (run [SuperLoaded] (load (JStr ''c1'') blank_window)) = []
   \<and> status refused \<noteq> JStr ''success''
   \<and> toasts (run [SuperLoaded, Response refused, Imported, CssLoaded, HtmlLoaded ''<div>'',
                 Subscribed, Push (JStr ''c1'') (Some zog)]
               (load (JStr ''c1'') blank_window)) = [''Character loading failed!'']
   \<and> sheetCalls (run [SuperLoaded, Response refused, Imported, CssLoaded,
                 HtmlLoaded ''<div>'', Subscribed, Push (JStr ''c1'') (Some zog)]
               (load (JStr ''c1'') blank_window)) = []
   \<and> subscribeCalls (run [SuperLoaded, Response refused, Imported, CssLoaded,
                 HtmlLoaded ''<div>'', Subscribed, Push (JStr ''c1'') (Some zog)]
               (load (JStr ''c1'') blank_window)) = []"
proof -
  define w where "w = run [SuperLoaded] (load (JStr ''c1'') blank_window)"
  have p: "pc w = AwaitApiRequest" and h: "handlers w = []"
    by (simp_all add: w_def load_def blank_window_def)
  have s: "status refused \<noteq> JStr ''success''"
    by (simp add: refused_def)
  from failed_fetch_stops_load [OF p h s,
      of "[Imported, CssLoaded, HtmlLoaded ''<div>'', Subscribed, Push (JStr ''c1'') (Some zog)]"]
  show ?thesis
    unfolding w_def by (simp add: load_def blank_window_def push_def refused_def)
qed

end
